theory Spec2Isabelle
  imports Main "HOL-Library.Word"
begin

section \<open>Values\<close>

text \<open>
  The values that travel through the client are JSON-like Python values: what
  \<^verbatim>\<open>response.json()\<close> decodes, what is passed as \<^verbatim>\<open>json=data\<close>, and what
  \<^verbatim>\<open>dict.get\<close> hands back. Python's \<^verbatim>\<open>None\<close> is \<open>JNull\<close>. A Python float is an
  IEEE double, kept as its 64-bit pattern (no arithmetic is done on it here). A decoded
  object is a Python dict with string keys, kept as an association list in insertion
  order. Python strings are kept as their UTF-8 bytes.
\<close>

datatype json =
    JNull
  | JBool bool
  | JInt int
  | JFloat "64 word"
  | JStr string
  | JList "json list"
  | JObj "(string \<times> json) list"

subsection \<open>Decimal text of an integer\<close>

text \<open>
  \<^verbatim>\<open>f"{n}"\<close> on a Python int is \<^verbatim>\<open>str(n)\<close>: the decimal digits, most significant
  first, with a leading minus sign for a negative number.
\<close>

definition digit_char :: "nat \<Rightarrow> char" where
  "digit_char d = char_of (48 + d)"

function str_nat :: "nat \<Rightarrow> string" where
  "str_nat n = (if n < 10 then [digit_char n] else str_nat (n div 10) @ [digit_char (n mod 10)])"
  by pat_completeness auto
termination
  by (relation "measure (\<lambda>n. n)") auto

declare str_nat.simps [simp del]

definition str_int :: "int \<Rightarrow> string" where
  "str_int i = (if i < 0 then ''-'' @ str_nat (nat (- i)) else str_nat (nat i))"

section \<open>The error type\<close>

text \<open>
  \<^verbatim>\<open>
  class APIError(Exception):
      def __init__(self, message, status_code=None):
          super().__init__(message)
          self.status_code = status_code

      def __str__(self):
          if self.status_code:
              return f"APIError {self.status_code}: {self.args[0]}"
          return f"APIError: {self.args[0]}"
  \<close>
  \<open>args0\<close> is \<^verbatim>\<open>self.args[0]\<close>, the message. \<open>status_code\<close> is an optional integer;
  the default \<^verbatim>\<open>None\<close> is \<open>None\<close>.
\<close>

datatype APIError = APIError (args0: string) (status_code: "int option")

text \<open>
  \<^verbatim>\<open>if self.status_code:\<close> is Python truthiness: \<^verbatim>\<open>None\<close> is false, and an int is
  false exactly when it is zero.
\<close>

fun truthy :: "int option \<Rightarrow> bool" where
  "truthy None = False"
| "truthy (Some n) = (n \<noteq> 0)"

fun fmt_status :: "int option \<Rightarrow> string" where
  "fmt_status None = ''None''"
| "fmt_status (Some n) = str_int n"

definition APIError_str :: "APIError \<Rightarrow> string" where
  "APIError_str e =
     (if truthy (status_code e)
      then ''APIError '' @ fmt_status (status_code e) @ '': '' @ args0 e
      else ''APIError: '' @ args0 e)"

datatype exn =
    Raise_APIError APIError
  | ValueError string
  | AttributeError string

section \<open>The HTTP exchange\<close>

text \<open>
  The \<^verbatim>\<open>requests\<close> library is outside the repository. What the client hands to it is a
  \<open>request\<close>; what comes back is an \<open>outcome\<close>: either the call raised a
  \<^verbatim>\<open>RequestException\<close> before any response existed (DNS failure, refused connection,
  timeout; the text is \<^verbatim>\<open>str(e)\<close>), or a response arrived. The body of a response
  either decodes as JSON or does not (the text is that of the decoding error).
\<close>

record request =
  req_method :: string
  req_url :: string
  req_headers :: "(string \<times> string) list"
  req_json :: "json option"
  req_timeout :: nat

datatype body = Json json | Not_json string

record response =
  resp_status_code :: int
  resp_reason :: string
  resp_url :: string
  resp_body :: body

datatype outcome = No_response string | Got response

text \<open>
  The remote side: given the requests issued earlier and the current one, the outcome of
  the exchange. It is a parameter of every operation.
\<close>

type_synonym network = "request list \<Rightarrow> request \<Rightarrow> outcome"

text \<open>
  \<^verbatim>\<open>response.raise_for_status()\<close> raises \<^verbatim>\<open>HTTPError\<close> for a status in 400..599 and
  returns otherwise; the result is the text of the error raised, if any.
\<close>

definition raise_for_status :: "response \<Rightarrow> string option" where
  "raise_for_status r =
     (if 400 \<le> resp_status_code r \<and> resp_status_code r < 500
      then Some (str_int (resp_status_code r) @ '' Client Error: '' @ resp_reason r
                 @ '' for url: '' @ resp_url r)
      else if 500 \<le> resp_status_code r \<and> resp_status_code r < 600
      then Some (str_int (resp_status_code r) @ '' Server Error: '' @ resp_reason r
                 @ '' for url: '' @ resp_url r)
      else None)"

text \<open>
  \<^verbatim>\<open>response.json()\<close>: the decoded value, or the text of
  \<^verbatim>\<open>requests.exceptions.JSONDecodeError\<close>, which is a \<^verbatim>\<open>RequestException\<close> (as of
  version 2.27 of the library) and so is caught by the handlers below.
\<close>

definition response_json :: "response \<Rightarrow> string + json" where
  "response_json r = (case resp_body r of Json v \<Rightarrow> Inr v | Not_json e \<Rightarrow> Inl e)"

subsection \<open>Header dictionaries\<close>

text \<open>
  \<^verbatim>\<open>session.headers\<close> is a case-insensitive dictionary: a key is found whatever its
  case, and setting a key that is present replaces the entry where it stands.
\<close>

definition lower_char :: "char \<Rightarrow> char" where
  "lower_char c =
     (if 65 \<le> (of_char c :: nat) \<and> (of_char c :: nat) \<le> 90
      then char_of ((of_char c :: nat) + 32) else c)"

definition lower :: "string \<Rightarrow> string" where
  "lower s = map lower_char s"

fun header_set :: "(string \<times> string) list \<Rightarrow> string \<Rightarrow> string \<Rightarrow> (string \<times> string) list" where
  "header_set [] k v = [(k, v)]"
| "header_set ((k', v') # hs) k v =
     (if lower k' = lower k then (k, v) # hs else (k', v') # header_set hs k v)"

fun header_get :: "(string \<times> string) list \<Rightarrow> string \<Rightarrow> string option" where
  "header_get [] k = None"
| "header_get ((k', v') # hs) k =
     (if lower k' = lower k then Some v' else header_get hs k)"

section \<open>The world the client acts on\<close>

text \<open>
  Two effects are visible outside a call: the requests handed to the HTTP library, in
  order, and the records appended to the log file. A log record keeps the level and the
  values interpolated into the message:
  \<^item> \<open>Error_request url e\<close>: \<^verbatim>\<open>logging.error\<close> in \<^verbatim>\<open>_request\<close>, with the URL and \<^verbatim>\<open>str(e)\<close>;
  \<^item> \<open>Info_sent mobile response\<close>: \<^verbatim>\<open>logging.info\<close> in \<^verbatim>\<open>send_sms\<close>;
  \<^item> \<open>Info_credit credit\<close>: in \<^verbatim>\<open>check_credit\<close>;
  \<^item> \<open>Info_scheduled formatted_time response\<close>: in \<^verbatim>\<open>schedule_sms\<close>;
  \<^item> \<open>Info_status message_id status\<close>: in \<^verbatim>\<open>get_sms_status\<close>.
\<close>

datatype log_record =
    Error_request string string
  | Info_sent string json
  | Info_credit json
  | Info_scheduled string json
  | Info_status string json

record world =
  issued :: "request list"
  log :: "log_record list"

section \<open>fetch_data\<close>

text \<open>
  \<^verbatim>\<open>
  def fetch_data(url):
      try:
          response = requests.get(url, timeout=10)
          response.raise_for_status()
          return response.json()
      except requests.exceptions.RequestException as e:
          raise APIError("...", status_code=response.status_code
                                if 'response' in locals() else None) from e
  \<close>
  \<open>default_headers\<close> are the headers the library sends by itself; \<open>get_request\<close> is the
  request \<^verbatim>\<open>requests.get(url, timeout=10)\<close> sends. The message is a fixed Persian
  sentence, given by its UTF-8 bytes.
\<close>

definition fetch_failed_message :: string where
  "fetch_failed_message = map char_of
     [216, 175, 216, 177, 216, 174, 217, 136, 216, 167, 216, 179, 216, 170, 32, 216, 168,
      217, 135, 32, 65, 80, 73, 32, 217, 134, 216, 167, 217, 133, 217, 136, 217, 129, 217,
      130, 32, 216, 168, 217, 136, 216, 175 :: nat]"

definition get_request :: "(string \<times> string) list \<Rightarrow> string \<Rightarrow> request" where
  "get_request default_headers url =
     \<lparr>req_method = ''GET'', req_url = url, req_headers = default_headers,
      req_json = None, req_timeout = 10\<rparr>"

definition fetch_data ::
  "(string \<times> string) list \<Rightarrow> network \<Rightarrow> string \<Rightarrow> world \<Rightarrow> (exn + json) \<times> world" where
  "fetch_data default_headers net url w =
     (let req = get_request default_headers url;
          w1 = w\<lparr>issued := issued w @ [req]\<rparr>
      in case net (issued w) req of
           No_response e \<Rightarrow>
             (Inl (Raise_APIError (APIError fetch_failed_message None)), w1)
         | Got response \<Rightarrow>
             (case raise_for_status response of
                Some e \<Rightarrow>
                  (Inl (Raise_APIError
                     (APIError fetch_failed_message (Some (resp_status_code response)))), w1)
              | None \<Rightarrow>
                  (case response_json response of
                     Inl e \<Rightarrow>
                       (Inl (Raise_APIError
                          (APIError fetch_failed_message (Some (resp_status_code response)))), w1)
                   | Inr v \<Rightarrow> (Inr v, w1))))"

section \<open>SMSClient\<close>

text \<open>
  \<^verbatim>\<open>
  class SMSClient:
      BASE_URL = "https://api.sms.ir/v1"

      def __init__(self, api_key):
          self.api_key = api_key
          self.session = requests.Session()
          self.session.headers.update({
              "Content-Type": "application/json",
              "Accept": "text/plain",
              "x-api-key": self.api_key,
          })
  \<close>
  A fresh session starts with the library's own headers (\<open>default_headers\<close>).
\<close>

record SMSClient =
  api_key :: string
  session_headers :: "(string \<times> string) list"

definition BASE_URL :: string where
  "BASE_URL = ''https://api.sms.ir/v1''"

definition SMSClient_init :: "(string \<times> string) list \<Rightarrow> string \<Rightarrow> SMSClient" where
  "SMSClient_init default_headers key =
     \<lparr>api_key = key,
      session_headers =
        header_set
          (header_set (header_set default_headers ''Content-Type'' ''application/json'')
             ''Accept'' ''text/plain'')
          ''x-api-key'' key\<rparr>"

subsection \<open>The dispatcher\<close>

text \<open>
  \<^verbatim>\<open>
  def _request(self, method, endpoint, data=None):
      url = f"{self.BASE_URL}/{endpoint}"
      try:
          response = self.session.request(method, url, json=data, timeout=10)
          response.raise_for_status()
          return response.json()
      except requests.exceptions.RequestException as e:
          logging.error(f"... {url}: {e}")
          raise APIError(f"API request failed: {e}")
  \<close>
  \<open>build_request\<close> is the request the session sends; \<open>request_failed\<close> is the
  \<^verbatim>\<open>except\<close> branch, with \<open>e\<close> the text of the exception caught.
\<close>

definition build_request :: "SMSClient \<Rightarrow> string \<Rightarrow> string \<Rightarrow> json option \<Rightarrow> request" where
  "build_request self method endpoint data =
     \<lparr>req_method = method, req_url = BASE_URL @ ''/'' @ endpoint,
      req_headers = session_headers self, req_json = data, req_timeout = 10\<rparr>"

definition request_failed :: "string \<Rightarrow> string \<Rightarrow> world \<Rightarrow> (exn + json) \<times> world" where
  "request_failed url e w =
     (Inl (Raise_APIError (APIError (''API request failed: '' @ e) None)),
      w\<lparr>log := log w @ [Error_request url e]\<rparr>)"

definition SMSClient_request ::
  "SMSClient \<Rightarrow> network \<Rightarrow> string \<Rightarrow> string \<Rightarrow> json option \<Rightarrow> world \<Rightarrow> (exn + json) \<times> world" where
  "SMSClient_request self net method endpoint data w =
     (let url = BASE_URL @ ''/'' @ endpoint;
          req = build_request self method endpoint data;
          w1 = w\<lparr>issued := issued w @ [req]\<rparr>
      in case net (issued w) req of
           No_response e \<Rightarrow> request_failed url e w1
         | Got response \<Rightarrow>
             (case raise_for_status response of
                Some e \<Rightarrow> request_failed url e w1
              | None \<Rightarrow>
                  (case response_json response of
                     Inl e \<Rightarrow> request_failed url e w1
                   | Inr v \<Rightarrow> (Inr v, w1))))"

subsection \<open>Business methods\<close>

text \<open>
  \<^verbatim>\<open>response.get(key)\<close>: on a dict, the value stored under the key, or \<^verbatim>\<open>None\<close> when
  the key is absent; any other decoded value has no \<^verbatim>\<open>get\<close> and the call raises
  \<^verbatim>\<open>AttributeError\<close>.
\<close>

fun type_name :: "json \<Rightarrow> string" where
  "type_name JNull = ''NoneType''"
| "type_name (JBool b) = ''bool''"
| "type_name (JInt i) = ''int''"
| "type_name (JFloat x) = ''float''"
| "type_name (JStr s) = ''str''"
| "type_name (JList xs) = ''list''"
| "type_name (JObj kvs) = ''dict''"

definition quoted :: "string \<Rightarrow> string" where
  "quoted s = CHR 0x27 # s @ [CHR 0x27]"

fun py_get :: "json \<Rightarrow> string \<Rightarrow> exn + json" where
  "py_get (JObj kvs) k = Inr (case map_of kvs k of None \<Rightarrow> JNull | Some v \<Rightarrow> v)"
| "py_get v k =
     Inl (AttributeError (quoted (type_name v) @ '' object has no attribute '' @ quoted ''get''))"

text \<open>
  \<^verbatim>\<open>
  def send_sms(self, mobile, template_id, parameters):
      data = {"mobile": mobile, "templateId": template_id, "parameters": parameters}
      response = self._request("POST", "send/verify", data)
      logging.info(f"... {mobile} ... {response}")
      return response
  \<close>
  The recipient is a string, the template identifier an integer, the parameters any
  JSON value (a list of name/value objects in the repository's own calls).
\<close>

definition send_sms ::
  "SMSClient \<Rightarrow> network \<Rightarrow> string \<Rightarrow> int \<Rightarrow> json \<Rightarrow> world \<Rightarrow> (exn + json) \<times> world" where
  "send_sms self net mobile template_id parameters w =
     (let data = JObj [(''mobile'', JStr mobile), (''templateId'', JInt template_id),
                       (''parameters'', parameters)]
      in case SMSClient_request self net ''POST'' ''send/verify'' (Some data) w of
           (Inl e, w1) \<Rightarrow> (Inl e, w1)
         | (Inr response, w1) \<Rightarrow>
             (Inr response, w1\<lparr>log := log w1 @ [Info_sent mobile response]\<rparr>))"

text \<open>
  \<^verbatim>\<open>
  def send_bulk_sms(self, mobiles, template_id, parameters):
      results = {mobile: self.send_sms(mobile, template_id, parameters) for mobile in mobiles}
      return results
  \<close>
  The comprehension runs over the recipients in order, storing each response under its
  recipient (\<open>dict_set\<close>: a key already present keeps its place and takes the new
  value). An exception raised by a call leaves the comprehension and the method.
\<close>

fun dict_set :: "(string \<times> json) list \<Rightarrow> string \<Rightarrow> json \<Rightarrow> (string \<times> json) list" where
  "dict_set [] k v = [(k, v)]"
| "dict_set ((k', v') # kvs) k v =
     (if k' = k then (k, v) # kvs else (k', v') # dict_set kvs k v)"

fun bulk_loop ::
  "SMSClient \<Rightarrow> network \<Rightarrow> string list \<Rightarrow> int \<Rightarrow> json \<Rightarrow> (string \<times> json) list \<Rightarrow> world
   \<Rightarrow> (exn + (string \<times> json) list) \<times> world" where
  "bulk_loop self net [] template_id parameters results w = (Inr results, w)"
| "bulk_loop self net (mobile # mobiles) template_id parameters results w =
     (case send_sms self net mobile template_id parameters w of
        (Inl e, w1) \<Rightarrow> (Inl e, w1)
      | (Inr response, w1) \<Rightarrow>
          bulk_loop self net mobiles template_id parameters (dict_set results mobile response) w1)"

definition send_bulk_sms ::
  "SMSClient \<Rightarrow> network \<Rightarrow> string list \<Rightarrow> int \<Rightarrow> json \<Rightarrow> world
   \<Rightarrow> (exn + (string \<times> json) list) \<times> world" where
  "send_bulk_sms self net mobiles template_id parameters w =
     bulk_loop self net mobiles template_id parameters [] w"

text \<open>
  \<^verbatim>\<open>
  def check_credit(self):
      response = self._request("GET", "credit")
      credit = response.get("credit")
      logging.info(f"... {credit}")
      return credit
  \<close>
\<close>

definition check_credit :: "SMSClient \<Rightarrow> network \<Rightarrow> world \<Rightarrow> (exn + json) \<times> world" where
  "check_credit self net w =
     (case SMSClient_request self net ''GET'' ''credit'' None w of
        (Inl e, w1) \<Rightarrow> (Inl e, w1)
      | (Inr response, w1) \<Rightarrow>
          (case py_get response ''credit'' of
             Inl e \<Rightarrow> (Inl e, w1)
           | Inr credit \<Rightarrow> (Inr credit, w1\<lparr>log := log w1 @ [Info_credit credit]\<rparr>)))"

text \<open>
  \<^verbatim>\<open>
  def get_sms_status(self, message_id):
      response = self._request("GET", f"sms/status/{message_id}")
      status = response.get("status")
      logging.info(f"... {message_id}: {status}")
      return status
  \<close>
\<close>

definition get_sms_status ::
  "SMSClient \<Rightarrow> network \<Rightarrow> string \<Rightarrow> world \<Rightarrow> (exn + json) \<times> world" where
  "get_sms_status self net message_id w =
     (case SMSClient_request self net ''GET'' (''sms/status/'' @ message_id) None w of
        (Inl e, w1) \<Rightarrow> (Inl e, w1)
      | (Inr response, w1) \<Rightarrow>
          (case py_get response ''status'' of
             Inl e \<Rightarrow> (Inl e, w1)
           | Inr status \<Rightarrow>
               (Inr status, w1\<lparr>log := log w1 @ [Info_status message_id status]\<rparr>)))"

text \<open>
  \<^verbatim>\<open>
  def schedule_sms(self, mobile, template_id, parameters, send_time):
      if not isinstance(send_time, datetime):
          raise ValueError("...")
      formatted_time = send_time.strftime("%Y-%m-%d %H:%M:%S")
      data = {"mobile": mobile, "templateId": template_id,
              "parameters": parameters, "sendDateTime": formatted_time}
      response = self._request("POST", "send/schedule", data)
      logging.info(f"... {formatted_time} ... {response}")
      return response
  \<close>
  The send-time argument is either a \<^verbatim>\<open>datetime\<close> (the fields the format reads) or some
  other value. \<^verbatim>\<open>strftime\<close> writes the year on four digits and the other fields on two,
  padded with zeros. The message of the \<^verbatim>\<open>ValueError\<close> is a fixed Persian sentence,
  given by its UTF-8 bytes.
\<close>

record datetime =
  year :: nat
  month :: nat
  day :: nat
  hour :: nat
  minute :: nat
  second :: nat

datatype send_time_arg = A_datetime datetime | Not_datetime json

definition zero_pad :: "nat \<Rightarrow> nat \<Rightarrow> string" where
  "zero_pad width n = replicate (width - length (str_nat n)) CHR ''0'' @ str_nat n"

definition strftime :: "datetime \<Rightarrow> string" where
  "strftime t =
     zero_pad 4 (year t) @ ''-'' @ zero_pad 2 (month t) @ ''-'' @ zero_pad 2 (day t) @ '' ''
     @ zero_pad 2 (hour t) @ '':'' @ zero_pad 2 (minute t) @ '':'' @ zero_pad 2 (second t)"

definition send_time_message :: string where
  "send_time_message = map char_of
     [217, 129, 216, 177, 217, 133, 216, 170, 32, 216, 178, 217, 133, 216, 167, 217, 134, 32,
      216, 167, 216, 177, 216, 179, 216, 167, 217, 132, 32, 216, 168, 216, 167, 219, 140, 216,
      175, 32, 219, 140, 218, 169, 32, 216, 180, 219, 140, 216, 161, 32, 100, 97, 116, 101,
      116, 105, 109, 101, 32, 216, 168, 216, 167, 216, 180, 216, 175, 46 :: nat]"

fun schedule_sms ::
  "SMSClient \<Rightarrow> network \<Rightarrow> string \<Rightarrow> int \<Rightarrow> json \<Rightarrow> send_time_arg \<Rightarrow> world
   \<Rightarrow> (exn + json) \<times> world" where
  "schedule_sms self net mobile template_id parameters (Not_datetime v) w =
     (Inl (ValueError send_time_message), w)"
| "schedule_sms self net mobile template_id parameters (A_datetime send_time) w =
     (let formatted_time = strftime send_time;
          data = JObj [(''mobile'', JStr mobile), (''templateId'', JInt template_id),
                       (''parameters'', parameters), (''sendDateTime'', JStr formatted_time)]
      in case SMSClient_request self net ''POST'' ''send/schedule'' (Some data) w of
           (Inl e, w1) \<Rightarrow> (Inl e, w1)
         | (Inr response, w1) \<Rightarrow>
             (Inr response, w1\<lparr>log := log w1 @ [Info_scheduled formatted_time response]\<rparr>))"

section \<open>Concrete clients and remote sides\<close>

text \<open>
  The inputs the closed theorems below are evaluated at: the empty world, the client of
  the repository's entry point (\<^verbatim>\<open>API_KEY = "YOURAPIKEY"\<close>) on a session with no headers
  of its own, and three remote sides: one that answers every request alike, one that never
  answers, and one that rejects the sends addressed to recipient \<^verbatim>\<open>A\<close> and accepts all
  others.
\<close>

definition world0 :: world where
  "world0 = \<lparr>issued = [], log = []\<rparr>"

definition demo_client :: SMSClient where
  "demo_client = SMSClient_init [] ''YOURAPIKEY''"

definition reply :: "int \<Rightarrow> string \<Rightarrow> body \<Rightarrow> network" where
  "reply code reason b hist req =
     Got \<lparr>resp_status_code = code, resp_reason = reason, resp_url = req_url req, resp_body = b\<rparr>"

definition unreachable :: network where
  "unreachable hist req = No_response ''Connection timed out''"

definition addressed_to :: "string \<Rightarrow> request \<Rightarrow> bool" where
  "addressed_to m req =
     (case req_json req of
        Some (JObj kvs) \<Rightarrow> map_of kvs ''mobile'' = Some (JStr m)
      | _ \<Rightarrow> False)"

definition rejects_A :: network where
  "rejects_A hist req =
     (if addressed_to ''A'' req
      then reply 500 ''Internal Server Error'' (Not_json ''Expecting value'') hist req
      else reply 200 ''OK'' (Json (JObj [(''status'', JInt 1)])) hist req)"

section \<open>Reading the model\<close>

text \<open>
  Two notions used to state properties, not taken from the source: the number a string
  of decimal digits denotes, and a request that carries a given credential in its
  API-key header.
\<close>

definition decimal_value :: "string \<Rightarrow> nat" where
  "decimal_value s = foldl (\<lambda>a c. 10 * a + (of_char c - 48)) 0 s"

definition carries_credential :: "string \<Rightarrow> request \<Rightarrow> bool" where
  "carries_credential key req = (header_get (req_headers req) ''x-api-key'' = Some key)"

section \<open>Basic facts\<close>

subsection \<open>Decimal text\<close>

lemma digit_char_value: "d < 10 \<Longrightarrow> (of_char (digit_char d) :: nat) = 48 + d"
  by (simp add: digit_char_def)

lemma decimal_value_snoc:
  "decimal_value (s @ [c]) = 10 * decimal_value s + (of_char c - 48)"
  by (simp add: decimal_value_def)

lemma str_nat_decimal: "decimal_value (str_nat n) = n"
proof (induction n rule: str_nat.induct)
  case (1 n)
  show ?case
  proof (cases "n < 10")
    case True
    then show ?thesis
      by (subst str_nat.simps) (simp add: decimal_value_def digit_char_value)
  next
    case False
    then have "decimal_value (str_nat (n div 10)) = n div 10"
      using "1.IH" by simp
    with False show ?thesis
      by (subst str_nat.simps) (simp add: decimal_value_snoc digit_char_value)
  qed
qed

lemma str_int_404: "str_int 404 = ''404''"
  by code_simp

subsection \<open>Statuses, headers, lookups\<close>

lemma raise_for_status_None_iff:
  "raise_for_status r = None \<longleftrightarrow> \<not> (400 \<le> resp_status_code r \<and> resp_status_code r < 600)"
  by (auto simp: raise_for_status_def)

lemma raise_for_status_2xx:
  "200 \<le> resp_status_code r \<Longrightarrow> resp_status_code r < 300 \<Longrightarrow> raise_for_status r = None"
  by (simp add: raise_for_status_def)

lemma header_get_set: "header_get (header_set hs k v) k = Some v"
  by (induction hs) auto

lemma map_of_absent: "k \<notin> fst ` set kvs \<Longrightarrow> map_of kvs k = None"
  by (simp add: map_of_eq_None_iff)

lemma dict_set_keys: "fst ` set (dict_set kvs k v) = insert k (fst ` set kvs)"
proof (induction kvs)
  case Nil
  show ?case by simp
next
  case (Cons p kvs)
  obtain k' v' where p: "p = (k', v')" by (cases p)
  show ?case
  proof (cases "k' = k")
    case True
    with p show ?thesis by simp
  next
    case False
    with p Cons.IH show ?thesis by (simp add: insert_commute)
  qed
qed

subsection \<open>What a dispatch does to the world\<close>

lemma issued_request:
  "issued (snd (SMSClient_request self net method endpoint data w)) =
     issued w @ [build_request self method endpoint data]"
  by (simp add: SMSClient_request_def request_failed_def Let_def
      split: outcome.split option.split sum.split)

lemma request_ok:
  "net (issued w) (build_request self method endpoint data) = Got r \<Longrightarrow>
   200 \<le> resp_status_code r \<Longrightarrow> resp_status_code r < 300 \<Longrightarrow>
   resp_body r = Json v \<Longrightarrow>
   SMSClient_request self net method endpoint data w =
     (Inr v, w\<lparr>issued := issued w @ [build_request self method endpoint data]\<rparr>)"
  by (simp add: SMSClient_request_def Let_def raise_for_status_2xx response_json_def)

text \<open>Whatever made the dispatcher fail, the error it raises has no status code.\<close>

lemma request_error_status_absent:
  "fst (SMSClient_request self net method endpoint data w) = Inl x \<Longrightarrow>
   \<exists>m. x = Raise_APIError (APIError m None)"
  by (auto simp: SMSClient_request_def request_failed_def Let_def
      split: outcome.splits option.splits sum.splits)

lemma send_sms_issued:
  "issued (snd (send_sms self net mobile template_id parameters w)) =
     issued w @ [build_request self ''POST'' ''send/verify''
       (Some (JObj [(''mobile'', JStr mobile), (''templateId'', JInt template_id),
                    (''parameters'', parameters)]))]"
proof -
  let ?data = "Some (JObj [(''mobile'', JStr mobile), (''templateId'', JInt template_id),
                    (''parameters'', parameters)])"
  obtain res w1 where r: "SMSClient_request self net ''POST'' ''send/verify'' ?data w = (res, w1)"
    by (cases "SMSClient_request self net ''POST'' ''send/verify'' ?data w")
  then have "issued w1 = issued w @ [build_request self ''POST'' ''send/verify'' ?data]"
    using issued_request [of self net "''POST''" "''send/verify''" ?data w] by simp
  with r show ?thesis
    by (cases res) (simp_all add: send_sms_def)
qed

lemma check_credit_issued:
  "issued (snd (check_credit self net w)) = issued w @ [build_request self ''GET'' ''credit'' None]"
proof -
  obtain res w1 where r: "SMSClient_request self net ''GET'' ''credit'' None w = (res, w1)"
    by (cases "SMSClient_request self net ''GET'' ''credit'' None w")
  then have "issued w1 = issued w @ [build_request self ''GET'' ''credit'' None]"
    using issued_request [of self net "''GET''" "''credit''" None w] by simp
  with r show ?thesis
    by (cases res) (simp_all add: check_credit_def split: sum.split)
qed

lemma get_sms_status_issued:
  "issued (snd (get_sms_status self net message_id w)) =
     issued w @ [build_request self ''GET'' (''sms/status/'' @ message_id) None]"
proof -
  let ?endpoint = "''sms/status/'' @ message_id"
  obtain res w1 where r: "SMSClient_request self net ''GET'' ?endpoint None w = (res, w1)"
    by (cases "SMSClient_request self net ''GET'' ?endpoint None w")
  then have "issued w1 = issued w @ [build_request self ''GET'' ?endpoint None]"
    using issued_request [of self net "''GET''" ?endpoint None w] by simp
  with r show ?thesis
    by (cases res) (simp_all add: get_sms_status_def split: sum.split)
qed

lemma schedule_sms_issued:
  "issued (snd (schedule_sms self net mobile template_id parameters (A_datetime t) w)) =
     issued w @ [build_request self ''POST'' ''send/schedule''
       (Some (JObj [(''mobile'', JStr mobile), (''templateId'', JInt template_id),
                    (''parameters'', parameters), (''sendDateTime'', JStr (strftime t))]))]"
proof -
  let ?data = "Some (JObj [(''mobile'', JStr mobile), (''templateId'', JInt template_id),
                    (''parameters'', parameters), (''sendDateTime'', JStr (strftime t))])"
  obtain res w1 where r: "SMSClient_request self net ''POST'' ''send/schedule'' ?data w = (res, w1)"
    by (cases "SMSClient_request self net ''POST'' ''send/schedule'' ?data w")
  then have "issued w1 = issued w @ [build_request self ''POST'' ''send/schedule'' ?data]"
    using issued_request [of self net "''POST''" "''send/schedule''" ?data w] by simp
  with r show ?thesis
    by (cases res) (simp_all add: Let_def)
qed

lemma build_request_carries:
  "carries_credential key (build_request (SMSClient_init dh key) method endpoint data)"
  by (simp add: carries_credential_def build_request_def SMSClient_init_def header_get_set)

lemma send_sms_keeps_credential:
  "list_all (carries_credential key) (issued w) \<Longrightarrow>
   list_all (carries_credential key)
     (issued (snd (send_sms (SMSClient_init dh key) net mobile template_id parameters w)))"
  by (simp add: send_sms_issued build_request_carries)

lemma check_credit_keeps_credential:
  "list_all (carries_credential key) (issued w) \<Longrightarrow>
   list_all (carries_credential key) (issued (snd (check_credit (SMSClient_init dh key) net w)))"
  by (simp add: check_credit_issued build_request_carries)

lemma get_sms_status_keeps_credential:
  "list_all (carries_credential key) (issued w) \<Longrightarrow>
   list_all (carries_credential key)
     (issued (snd (get_sms_status (SMSClient_init dh key) net message_id w)))"
  by (simp add: get_sms_status_issued build_request_carries)

lemma schedule_sms_keeps_credential:
  "list_all (carries_credential key) (issued w) \<Longrightarrow>
   list_all (carries_credential key)
     (issued (snd (schedule_sms (SMSClient_init dh key) net mobile template_id parameters t w)))"
  by (cases t) (simp_all add: schedule_sms_issued build_request_carries del: schedule_sms.simps(2))

lemma bulk_loop_keeps_credential:
  "list_all (carries_credential key) (issued w) \<Longrightarrow>
   list_all (carries_credential key)
     (issued (snd (bulk_loop (SMSClient_init dh key) net mobiles template_id parameters results w)))"
proof (induction mobiles arbitrary: results w)
  case Nil
  then show ?case by simp
next
  case (Cons mobile mobiles)
  obtain res w1 where s:
    "send_sms (SMSClient_init dh key) net mobile template_id parameters w = (res, w1)"
    by (cases "send_sms (SMSClient_init dh key) net mobile template_id parameters w")
  have w1: "list_all (carries_credential key) (issued w1)"
    using send_sms_keeps_credential [OF Cons.prems, of dh net mobile template_id parameters] s
    by simp
  show ?case
  proof (cases res)
    case (Inl e)
    with s w1 show ?thesis by simp
  next
    case (Inr response)
    with s Cons.IH [OF w1] show ?thesis by simp
  qed
qed

subsection \<open>A bulk send that succeeds\<close>

text \<open>
  When the loop returns a mapping, its keys are the keys it started with and the
  recipients, and one request was issued per recipient.
\<close>

lemma bulk_loop_success:
  "bulk_loop self net mobiles template_id parameters results w = (Inr res, w') \<Longrightarrow>
   fst ` set res = fst ` set results \<union> set mobiles \<and>
   length (issued w') = length (issued w) + length mobiles"
proof (induction mobiles arbitrary: results w)
  case Nil
  then show ?case by simp
next
  case (Cons mobile mobiles)
  obtain r w1 where s: "send_sms self net mobile template_id parameters w = (r, w1)"
    by (cases "send_sms self net mobile template_id parameters w")
  show ?case
  proof (cases r)
    case (Inl e)
    with s Cons.prems show ?thesis by simp
  next
    case (Inr response)
    with s Cons.prems have
      "bulk_loop self net mobiles template_id parameters (dict_set results mobile response) w1
         = (Inr res, w')"
      by simp
    from Cons.IH [OF this] have
      "fst ` set res = fst ` set (dict_set results mobile response) \<union> set mobiles"
      "length (issued w') = length (issued w1) + length mobiles"
      by simp_all
    moreover have "length (issued w1) = length (issued w) + 1"
      using send_sms_issued [of self net mobile template_id parameters w] s by simp
    ultimately show ?thesis
      by (auto simp: dict_set_keys)
  qed
qed

section \<open>The error type rendered as text\<close>

text \<open>
  C4, as the code has it: for every message \<open>m\<close> and status code \<open>s\<close> other than a
  present zero, rendering \<^verbatim>\<open>APIError(m, s)\<close> yields \<^verbatim>\<open>APIError <s>: <m>\<close> when \<open>s\<close> is
  present, with \<^verbatim>\<open><s>\<close> the decimal text of the code, and \<^verbatim>\<open>APIError: <m>\<close> when \<open>s\<close> is
  \<^verbatim>\<open>None\<close>.
\<close>

theorem APIError_str_render:
  "s \<noteq> Some 0 \<Longrightarrow>
   APIError_str (APIError m s) =
     (case s of
        None \<Rightarrow> ''APIError: '' @ m
      | Some c \<Rightarrow> ''APIError '' @ str_int c @ '': '' @ m)"
  by (cases s) (simp_all add: APIError_str_def)

text \<open>
  The two renderings the specification lists: message \<^verbatim>\<open>X\<close> with status 404, and message
  \<^verbatim>\<open>Y\<close> with no status.
\<close>

theorem APIError_str_render_witness:
  "Some (404 :: int) \<noteq> Some 0 \<and>
   APIError_str (APIError ''X'' (Some 404)) = ''APIError 404: X'' \<and>
   APIError_str (APIError ''Y'' None) = ''APIError: Y''"
  using APIError_str_render [of "Some 404" "''X''"] APIError_str_render [of None "''Y''"]
  by (simp add: str_int_404)

text \<open>
  C4 as stated fails at a present status code of zero: message \<^verbatim>\<open>X\<close> with status 0 is
  rendered without the code, not as \<^verbatim>\<open>APIError 0: X\<close>.
\<close>

theorem APIError_str_zero_counterexample:
  "APIError_str (APIError ''X'' (Some 0)) = ''APIError: X'' \<and>
   APIError_str (APIError ''X'' (Some 0)) \<noteq> ''APIError 0: X''"
  by (simp add: APIError_str_def)

text \<open>
  C10: for every message \<open>m\<close>, \<^verbatim>\<open>APIError(m, 0)\<close> renders as \<^verbatim>\<open>APIError: <m>\<close>, the code
  omitted, exactly as \<^verbatim>\<open>APIError(m, None)\<close> does.
\<close>

theorem APIError_str_zero_status:
  "APIError_str (APIError m (Some 0)) = ''APIError: '' @ m \<and>
   APIError_str (APIError m (Some 0)) = APIError_str (APIError m None)"
  by (simp add: APIError_str_def)

section \<open>The dispatcher\<close>

text \<open>
  C1 at a concrete input: the remote side answers 404 Not Found. The dispatcher raises
  an \<^verbatim>\<open>APIError\<close> whose status code is absent (the code appears in the message only),
  where \<^verbatim>\<open>fetch_data\<close>, on the same answer, raises one whose status code is 404.
\<close>

theorem request_404_status_code_absent:
  "fst (SMSClient_request demo_client (reply 404 ''Not Found'' (Not_json ''Expecting value''))
          ''GET'' ''credit'' None world0) =
     Inl (Raise_APIError (APIError
       ''API request failed: 404 Client Error: Not Found for url: https://api.sms.ir/v1/credit''
       None)) \<and>
   fst (fetch_data [] (reply 404 ''Not Found'' (Not_json ''Expecting value''))
          ''https://api.example.com/data'' world0) =
     Inl (Raise_APIError (APIError fetch_failed_message (Some 404)))"
  by code_simp

text \<open>
  C3: when the exchange fails before any response exists, the dispatcher raises an
  \<^verbatim>\<open>APIError\<close> whose status code is absent, and so does \<^verbatim>\<open>fetch_data\<close>.
\<close>

theorem transport_failure_status_absent:
  "(net (issued w) (build_request self method endpoint data) = No_response e \<longrightarrow>
      fst (SMSClient_request self net method endpoint data w) =
        Inl (Raise_APIError (APIError (''API request failed: '' @ e) None))) \<and>
   (net (issued w) (get_request dh url) = No_response e' \<longrightarrow>
      fst (fetch_data dh net url w) = Inl (Raise_APIError (APIError fetch_failed_message None)))"
  by (simp add: SMSClient_request_def request_failed_def fetch_data_def Let_def)

theorem transport_failure_status_absent_witness:
  "unreachable (issued world0) (build_request demo_client ''GET'' ''credit'' None) =
     No_response ''Connection timed out'' \<and>
   fst (SMSClient_request demo_client unreachable ''GET'' ''credit'' None world0) =
     Inl (Raise_APIError (APIError ''API request failed: Connection timed out'' None)) \<and>
   unreachable (issued world0) (get_request [] ''https://api.example.com/data'') =
     No_response ''Connection timed out'' \<and>
   fst (fetch_data [] unreachable ''https://api.example.com/data'' world0) =
     Inl (Raise_APIError (APIError fetch_failed_message None))"
  using transport_failure_status_absent
    [of unreachable world0 demo_client "''GET''" "''credit''" None "''Connection timed out''"
      "[]" "''https://api.example.com/data''" "''Connection timed out''"]
  by (simp add: unreachable_def)

text \<open>
  C5: every dispatch of a client constructed with a credential, whatever the verb, the
  endpoint and the body, hands exactly one request to the HTTP library, and that request
  has the credential under \<^verbatim>\<open>x-api-key\<close>.
\<close>

theorem dispatch_carries_credential:
  "issued (snd (SMSClient_request (SMSClient_init dh key) net method endpoint data w)) =
     issued w @ [build_request (SMSClient_init dh key) method endpoint data] \<and>
   header_get (req_headers (build_request (SMSClient_init dh key) method endpoint data))
     ''x-api-key'' = Some key"
  by (simp add: issued_request build_request_def SMSClient_init_def header_get_set)

text \<open>
  C6: when the exchange completes with a 2xx status and the body decodes to \<open>v\<close>, the
  dispatcher returns \<open>v\<close> itself.
\<close>

theorem dispatch_returns_decoded_value:
  "net (issued w) (build_request self method endpoint data) = Got r \<Longrightarrow>
   200 \<le> resp_status_code r \<Longrightarrow> resp_status_code r < 300 \<Longrightarrow>
   resp_body r = Json v \<Longrightarrow>
   fst (SMSClient_request self net method endpoint data w) = Inr v"
  by (simp add: request_ok)

theorem dispatch_returns_decoded_value_witness:
  "reply 201 ''Created'' (Json (JObj [(''messageId'', JInt 7), (''tags'', JList [JNull])]))
     (issued world0) (build_request demo_client ''POST'' ''send/verify'' (Some (JObj []))) =
     Got \<lparr>resp_status_code = 201, resp_reason = ''Created'',
          resp_url = ''https://api.sms.ir/v1/send/verify'',
          resp_body = Json (JObj [(''messageId'', JInt 7), (''tags'', JList [JNull])])\<rparr> \<and>
   fst (SMSClient_request demo_client
          (reply 201 ''Created'' (Json (JObj [(''messageId'', JInt 7), (''tags'', JList [JNull])])))
          ''POST'' ''send/verify'' (Some (JObj [])) world0) =
     Inr (JObj [(''messageId'', JInt 7), (''tags'', JList [JNull])])"
  using dispatch_returns_decoded_value
    [of "reply 201 ''Created'' (Json (JObj [(''messageId'', JInt 7), (''tags'', JList [JNull])]))"
      world0 demo_client "''POST''" "''send/verify''" "Some (JObj [])"
      "\<lparr>resp_status_code = 201, resp_reason = ''Created'',
          resp_url = ''https://api.sms.ir/v1/send/verify'',
          resp_body = Json (JObj [(''messageId'', JInt 7), (''tags'', JList [JNull])])\<rparr>"
      "JObj [(''messageId'', JInt 7), (''tags'', JList [JNull])]"]
  by (simp add: reply_def build_request_def BASE_URL_def)

section \<open>Business methods\<close>

text \<open>
  C2, as the code has it: when the send to the first recipient \<open>a\<close> fails, the bulk send
  raises that failure to its caller instead of returning a mapping, and the only request
  it has issued is the send to \<open>a\<close>; no request is issued for the recipients after \<open>a\<close>.
\<close>

theorem bulk_send_stops_at_first_failure:
  "fst (send_sms self net a template_id parameters w) = Inl e \<Longrightarrow>
   fst (send_bulk_sms self net (a # rest) template_id parameters w) = Inl e \<and>
   issued (snd (send_bulk_sms self net (a # rest) template_id parameters w)) =
     issued w @ [build_request self ''POST'' ''send/verify''
       (Some (JObj [(''mobile'', JStr a), (''templateId'', JInt template_id),
                    (''parameters'', parameters)]))]"
proof -
  assume failed: "fst (send_sms self net a template_id parameters w) = Inl e"
  obtain w1 where s: "send_sms self net a template_id parameters w = (Inl e, w1)"
    using failed by (cases "send_sms self net a template_id parameters w") simp
  then have bulk: "send_bulk_sms self net (a # rest) template_id parameters w = (Inl e, w1)"
    by (simp add: send_bulk_sms_def)
  have "issued w1 = issued (snd (send_sms self net a template_id parameters w))"
    using s by simp
  then show ?thesis
    using bulk by (simp add: send_sms_issued)
qed

theorem bulk_send_stops_at_first_failure_witness:
  "fst (send_sms demo_client rejects_A ''A'' 12345 (JList []) world0) =
     Inl (Raise_APIError (APIError
       ''API request failed: 500 Server Error: Internal Server Error for url: https://api.sms.ir/v1/send/verify''
       None)) \<and>
   fst (send_bulk_sms demo_client rejects_A [''A'', ''B''] 12345 (JList []) world0) =
     Inl (Raise_APIError (APIError
       ''API request failed: 500 Server Error: Internal Server Error for url: https://api.sms.ir/v1/send/verify''
       None)) \<and>
   issued (snd (send_bulk_sms demo_client rejects_A [''A'', ''B''] 12345 (JList []) world0)) =
     [build_request demo_client ''POST'' ''send/verify''
       (Some (JObj [(''mobile'', JStr ''A''), (''templateId'', JInt 12345),
                    (''parameters'', JList [])]))]"
proof -
  have failed: "fst (send_sms demo_client rejects_A ''A'' 12345 (JList []) world0) =
     Inl (Raise_APIError (APIError
       ''API request failed: 500 Server Error: Internal Server Error for url: https://api.sms.ir/v1/send/verify''
       None))"
    by code_simp
  have empty: "issued world0 = []"
    by (simp add: world0_def)
  show ?thesis
    using failed empty bulk_send_stops_at_first_failure [OF failed, of "[''B'']"] by simp
qed

text \<open>
  C2 as stated fails on recipients \<^verbatim>\<open>A\<close>, \<^verbatim>\<open>B\<close> with a remote side that rejects the send
  to \<^verbatim>\<open>A\<close> and accepts the send to \<^verbatim>\<open>B\<close>: the bulk send returns no mapping, it raises the
  failure of \<^verbatim>\<open>A\<close>, and the send to \<^verbatim>\<open>B\<close> is never issued.
\<close>

theorem bulk_send_counterexample:
  "fst (send_sms demo_client rejects_A ''A'' 12345 (JList []) world0) =
     Inl (Raise_APIError (APIError
       ''API request failed: 500 Server Error: Internal Server Error for url: https://api.sms.ir/v1/send/verify''
       None)) \<and>
   fst (send_sms demo_client rejects_A ''B'' 12345 (JList []) world0) =
     Inr (JObj [(''status'', JInt 1)]) \<and>
   fst (send_bulk_sms demo_client rejects_A [''A'', ''B''] 12345 (JList []) world0) =
     Inl (Raise_APIError (APIError
       ''API request failed: 500 Server Error: Internal Server Error for url: https://api.sms.ir/v1/send/verify''
       None)) \<and>
   map req_json
     (issued (snd (send_bulk_sms demo_client rejects_A [''A'', ''B''] 12345 (JList []) world0))) =
     [Some (JObj [(''mobile'', JStr ''A''), (''templateId'', JInt 12345),
                  (''parameters'', JList [])])]"
  by code_simp

text \<open>
  C7: a send time that is not a \<^verbatim>\<open>datetime\<close> is rejected with a \<^verbatim>\<open>ValueError\<close>, and the
  world is left as it was: no request has been issued and nothing has been logged,
  whatever the remote side would have answered.
\<close>

theorem schedule_rejects_non_datetime:
  "schedule_sms self net mobile template_id parameters (Not_datetime v) w =
     (Inl (ValueError send_time_message), w) \<and>
   issued (snd (schedule_sms self net mobile template_id parameters (Not_datetime v) w)) =
     issued w"
  by simp

text \<open>
  C8: when the answer to \<^verbatim>\<open>GET credit\<close> has a 2xx status and decodes to the object
  \<^verbatim>\<open>{"credit": 1500}\<close>, the credit check returns 1500.
\<close>

theorem check_credit_extracts_credit:
  "net (issued w) (build_request self ''GET'' ''credit'' None) = Got r \<Longrightarrow>
   200 \<le> resp_status_code r \<Longrightarrow> resp_status_code r < 300 \<Longrightarrow>
   resp_body r = Json (JObj [(''credit'', JInt 1500)]) \<Longrightarrow>
   fst (check_credit self net w) = Inr (JInt 1500)"
  by (simp add: check_credit_def request_ok)

theorem check_credit_extracts_credit_witness:
  "reply 200 ''OK'' (Json (JObj [(''credit'', JInt 1500)])) (issued world0)
     (build_request demo_client ''GET'' ''credit'' None) =
     Got \<lparr>resp_status_code = 200, resp_reason = ''OK'',
          resp_url = ''https://api.sms.ir/v1/credit'',
          resp_body = Json (JObj [(''credit'', JInt 1500)])\<rparr> \<and>
   fst (check_credit demo_client (reply 200 ''OK'' (Json (JObj [(''credit'', JInt 1500)]))) world0) =
     Inr (JInt 1500)"
  using check_credit_extracts_credit
    [of "reply 200 ''OK'' (Json (JObj [(''credit'', JInt 1500)]))" world0 demo_client
      "\<lparr>resp_status_code = 200, resp_reason = ''OK'',
          resp_url = ''https://api.sms.ir/v1/credit'',
          resp_body = Json (JObj [(''credit'', JInt 1500)])\<rparr>"]
  by (simp add: reply_def build_request_def BASE_URL_def)

text \<open>
  C9: when the answer has a 2xx status and decodes to an object without the field the
  caller extracts (\<^verbatim>\<open>credit\<close> for the credit check, \<^verbatim>\<open>status\<close> for the status query), the
  caller returns \<^verbatim>\<open>None\<close> and raises nothing.
\<close>

theorem missing_field_returns_None:
  "(net (issued w) (build_request self ''GET'' ''credit'' None) = Got r \<and>
    200 \<le> resp_status_code r \<and> resp_status_code r < 300 \<and>
    resp_body r = Json (JObj kvs) \<and> ''credit'' \<notin> fst ` set kvs \<longrightarrow>
    fst (check_credit self net w) = Inr JNull) \<and>
   (net (issued w) (build_request self ''GET'' (''sms/status/'' @ message_id) None) = Got r' \<and>
    200 \<le> resp_status_code r' \<and> resp_status_code r' < 300 \<and>
    resp_body r' = Json (JObj kvs') \<and> ''status'' \<notin> fst ` set kvs' \<longrightarrow>
    fst (get_sms_status self net message_id w) = Inr JNull)"
  by (simp add: check_credit_def get_sms_status_def request_ok map_of_absent)

theorem missing_field_returns_None_witness:
  "fst (check_credit demo_client (reply 200 ''OK'' (Json (JObj [(''balance'', JInt 7)]))) world0) =
     Inr JNull \<and>
   fst (get_sms_status demo_client (reply 200 ''OK'' (Json (JObj [(''balance'', JInt 7)])))
          ''1234567890'' world0) = Inr JNull"
  using missing_field_returns_None
    [of "reply 200 ''OK'' (Json (JObj [(''balance'', JInt 7)]))" world0 demo_client
      "\<lparr>resp_status_code = 200, resp_reason = ''OK'',
          resp_url = ''https://api.sms.ir/v1/credit'',
          resp_body = Json (JObj [(''balance'', JInt 7)])\<rparr>"
      "[(''balance'', JInt 7)]" "''1234567890''"
      "\<lparr>resp_status_code = 200, resp_reason = ''OK'',
          resp_url = ''https://api.sms.ir/v1/sms/status/1234567890'',
          resp_body = Json (JObj [(''balance'', JInt 7)])\<rparr>"
      "[(''balance'', JInt 7)]"]
  by (simp add: reply_def build_request_def BASE_URL_def)

end
